theory Spec2Isabelle
  imports Main
begin

section \<open>Data model\<close>

text \<open>
  The program is one file, \<^verbatim>\<open>server.js\<close>: an Express application over two Mongoose
  collections. A document identifier (\<^verbatim>\<open>ObjectId\<close>) is modelled as a natural number, a
  JavaScript \<^verbatim>\<open>Date\<close> as its time value, the integer number of milliseconds since the
  epoch. A field that is \<^verbatim>\<open>undefined\<close>, \<^verbatim>\<open>null\<close> or absent from a document is
  \<open>None\<close>.
\<close>

type_synonym objectid = nat
type_synonym date = int

text \<open>
  \<^verbatim>\<open>userSchema\<close>: \<^verbatim>\<open>username: { type: String, unique: true }\<close>, \<^verbatim>\<open>password: String\<close>.
  Neither field is declared \<^verbatim>\<open>required\<close>. The password is always present in a stored
  record, because the only writer (registration) stores the result of a successful hash.
\<close>

record User =
  user_id :: objectid
  username :: "string option"
  password :: string

text \<open>\<^verbatim>\<open>noteSchema\<close>, field by field; \<open>note_id\<close> is the document's \<^verbatim>\<open>_id\<close>.\<close>

record Note =
  note_id :: objectid
  userId :: objectid
  title :: "string option"
  content :: "string option"
  tags :: "string list option"
  color :: "string option"
  isArchived :: "bool option"
  isTrashed :: "bool option"
  deletedAt :: "date option"
  createdAt :: date
  reminder :: "date option"

text \<open>
  Request bodies. \<^verbatim>\<open>const { username, password } = req.body\<close> reads two keys of a
  JSON object; the account handlers treat a key that is missing and one that is
  \<^verbatim>\<open>null\<close> alike, so both are \<open>None\<close>.
\<close>

record credentials =
  req_username :: "string option"
  req_password :: "string option"

text \<open>
  \<^verbatim>\<open>const { title, content, tags, color, reminder, isArchived, isTrashed } = req.body\<close>:
  for the note handlers the difference matters. A key is missing from the body (the
  variable is \<^verbatim>\<open>undefined\<close>), or it is \<^verbatim>\<open>null\<close>, or it carries a value.
\<close>

datatype 'a body_key = Missing | Null | Given 'a

record note_body =
  req_title :: "string body_key"
  req_content :: "string body_key"
  req_tags :: "string list body_key"
  req_color :: "string body_key"
  req_reminder :: "date body_key"
  req_isArchived :: "bool body_key"
  req_isTrashed :: "bool body_key"

text \<open>
  What a handler does with the request: it sends a status with a body
  (\<^verbatim>\<open>res.status(c).send(text)\<close> or \<^verbatim>\<open>res.status(c).json(value)\<close>), or an awaited
  promise rejects outside any \<^verbatim>\<open>try\<close> and the handler ends without sending anything
  (\<open>Unhandled\<close>). The token of a login is represented by its signed payload, the
  \<^verbatim>\<open>userId\<close> given to \<^verbatim>\<open>jwt.sign\<close>; \<^verbatim>\<open>verifyToken\<close> hands the same value back as
  \<^verbatim>\<open>req.userId\<close>, which is the \<open>uid\<close> argument of the note handlers below.
\<close>

datatype payload = Text string | Token objectid

datatype outcome = Responded nat payload | Unhandled

section \<open>The document store\<close>

text \<open>
  A collection is the list of its documents in insertion order. The Mongoose calls the
  handlers make are: \<^verbatim>\<open>find\<close> (all documents matching a filter), \<^verbatim>\<open>findOne\<close> (the first
  one), \<^verbatim>\<open>findOneAndUpdate\<close> with \<^verbatim>\<open>{ new: true }\<close> (change the first match and return
  it as changed, or return \<^verbatim>\<open>null\<close>), \<^verbatim>\<open>deleteMany\<close> (remove every match) and
  \<^verbatim>\<open>save\<close> (insert).
\<close>

definition findDocs :: "('a \<Rightarrow> bool) \<Rightarrow> 'a list \<Rightarrow> 'a list" where
  "findDocs p db = filter p db"

definition findOne :: "('a \<Rightarrow> bool) \<Rightarrow> 'a list \<Rightarrow> 'a option" where
  "findOne p db = List.find p db"

fun findOneAndUpdate :: "('a \<Rightarrow> bool) \<Rightarrow> ('a \<Rightarrow> 'a) \<Rightarrow> 'a list \<Rightarrow> 'a option \<times> 'a list" where
  "findOneAndUpdate p f [] = (None, [])"
| "findOneAndUpdate p f (d # ds) =
     (if p d then (Some (f d), f d # ds)
      else (case findOneAndUpdate p f ds of (r, ds') \<Rightarrow> (r, d # ds')))"

definition deleteMany :: "('a \<Rightarrow> bool) \<Rightarrow> 'a list \<Rightarrow> 'a list" where
  "deleteMany p db = filter (\<lambda>d. \<not> p d) db"

text \<open>
  \<^verbatim>\<open>newUser.save()\<close> under the unique index on \<^verbatim>\<open>username\<close>: the insert is refused when
  a stored user has the same value (a missing username is indexed as \<^verbatim>\<open>null\<close>, so two
  users without one collide as well).
\<close>

definition saveUser :: "User \<Rightarrow> User list \<Rightarrow> User list option" where
  "saveUser u us =
     (if list_ex (\<lambda>v. username v = username u) us then None else Some (us @ [u]))"

text \<open>
  A path given to a document constructor (\<^verbatim>\<open>new Note({ ... })\<close>): a value is stored;
  \<^verbatim>\<open>undefined\<close> and \<^verbatim>\<open>null\<close> leave the path without a value.
\<close>

definition toStored :: "'a body_key \<Rightarrow> 'a option" where
  "toStored k = (case k of Missing \<Rightarrow> None | Null \<Rightarrow> None | Given v \<Rightarrow> Some v)"

text \<open>
  A path named in an update document, with the value it has before the update. A value
  is written and \<^verbatim>\<open>null\<close> is written. What happens to \<^verbatim>\<open>undefined\<close> is the store
  library's choice, and the source fixes neither the library's version nor an option
  for it: Mongoose 5 writes \<^verbatim>\<open>null\<close>, Mongoose 6 and later drop the path from the
  update, so that the stored value stays. The choice is the parameter
  \<open>dropUndefined\<close> of the handlers that update.
\<close>

definition setPath :: "bool \<Rightarrow> 'a body_key \<Rightarrow> 'a option \<Rightarrow> 'a option" where
  "setPath dropUndefined k old =
     (case k of
        Given v \<Rightarrow> Some v
      | Null \<Rightarrow> None
      | Missing \<Rightarrow> if dropUndefined then old else None)"

section \<open>Account handlers\<close>

text \<open>
  \<^verbatim>\<open>bcrypt.hash(password, 10)\<close> and \<^verbatim>\<open>bcrypt.compare(password, hash)\<close> are library calls;
  the handlers take them as the parameters \<open>hash\<close> (with the salt the library draws) and
  \<open>compare\<close>. Both calls reject when the password is \<^verbatim>\<open>undefined\<close> or \<^verbatim>\<open>null\<close>
  (\<^verbatim>\<open>data and salt arguments required\<close>). The \<^verbatim>\<open>_id\<close> of a new document is drawn by
  Mongoose when the document is constructed; it is the argument \<open>new_id\<close>.

  \<^verbatim>\<open>POST /api/register\<close>: the hash is awaited before the \<^verbatim>\<open>try\<close> block, so its rejection
  is not caught; any error of \<^verbatim>\<open>save\<close> is answered with 400.
\<close>

definition register ::
  "('s \<Rightarrow> string \<Rightarrow> string) \<Rightarrow> User list \<Rightarrow> credentials \<Rightarrow> 's \<Rightarrow> objectid \<Rightarrow> outcome \<times> User list" where
  "register hash us b salt new_id =
     (case req_password b of
        None \<Rightarrow> (Unhandled, us)
      | Some pw \<Rightarrow>
          (let hashedPassword = hash salt pw;
               newUser = \<lparr>user_id = new_id, username = req_username b, password = hashedPassword\<rparr>
           in case saveUser newUser us of
                Some us' \<Rightarrow> (Responded 201 (Text ''User Registered''), us')
              | None \<Rightarrow> (Responded 400 (Text ''Username already exists''), us)))"

text \<open>
  \<^verbatim>\<open>POST /api/login\<close>. It reads the users and writes nothing. A username missing from
  the body makes the filter value \<^verbatim>\<open>undefined\<close>, which the store matches like
  \<^verbatim>\<open>null\<close>: against users that store no username.
\<close>

definition login :: "(string \<Rightarrow> string \<Rightarrow> bool) \<Rightarrow> User list \<Rightarrow> credentials \<Rightarrow> outcome" where
  "login compare us b =
     (case findOne (\<lambda>u. username u = req_username b) us of
        None \<Rightarrow> Responded 400 (Text ''Invalid Username or Password'')
      | Some u \<Rightarrow>
          (case req_password b of
             None \<Rightarrow> Unhandled
           | Some pw \<Rightarrow>
               if \<not> compare pw (password u)
               then Responded 400 (Text ''Invalid Username or Password'')
               else Responded 200 (Token (user_id u))))"

section \<open>Note handlers\<close>

text \<open>
  \<^verbatim>\<open>POST /api/notes\<close>. \<^verbatim>\<open>deletedAt\<close> is not given to the constructor; \<^verbatim>\<open>createdAt\<close>
  takes its schema default \<^verbatim>\<open>Date.now\<close>; an array path of a Mongoose schema defaults to
  the empty array when nothing is given for it, and stores \<^verbatim>\<open>null\<close> when \<^verbatim>\<open>null\<close> is
  given.
\<close>

definition create :: "Note list \<Rightarrow> objectid \<Rightarrow> note_body \<Rightarrow> objectid \<Rightarrow> date \<Rightarrow> outcome \<times> Note list" where
  "create db uid b new_id now =
     (let newNote = \<lparr>note_id = new_id, userId = uid, title = toStored (req_title b),
                     content = toStored (req_content b),
                     tags = (case req_tags b of
                               Missing \<Rightarrow> Some [] | Null \<Rightarrow> None | Given ts \<Rightarrow> Some ts),
                     color = toStored (req_color b), isArchived = Some False,
                     isTrashed = Some False, deletedAt = None, createdAt = now,
                     reminder = toStored (req_reminder b)\<rparr>
      in (Responded 201 (Text ''Note Created''), db @ [newNote]))"

text \<open>
  The listing handlers answer 200 with the JSON array of the notes found; the functions
  return that array. An equality filter on a Boolean path (\<^verbatim>\<open>isTrashed: false\<close>) selects
  the documents that store exactly that value.

  \<^verbatim>\<open>GET /api/notes\<close>
\<close>

definition listActive :: "Note list \<Rightarrow> objectid \<Rightarrow> Note list" where
  "listActive db uid = findDocs (\<lambda>n. userId n = uid \<and> isTrashed n = Some False) db"

text \<open>
  \<^verbatim>\<open>GET /api/notes/search\<close>. The store's regular-expression matcher with option
  \<^verbatim>\<open>i\<close> is the parameter \<open>rx\<close> (pattern, then subject); a path that holds no string
  does not match.
\<close>

definition regexMatch :: "(string \<Rightarrow> string \<Rightarrow> bool) \<Rightarrow> string \<Rightarrow> string option \<Rightarrow> bool" where
  "regexMatch rx query field = (case field of None \<Rightarrow> False | Some s \<Rightarrow> rx query s)"

definition search :: "(string \<Rightarrow> string \<Rightarrow> bool) \<Rightarrow> Note list \<Rightarrow> objectid \<Rightarrow> string \<Rightarrow> Note list" where
  "search rx db uid query =
     findDocs (\<lambda>n. userId n = uid \<and> isTrashed n = Some False \<and>
                    (regexMatch rx query (title n) \<or> regexMatch rx query (content n))) db"

text \<open>\<^verbatim>\<open>GET /api/notes/archived\<close>\<close>

definition listArchived :: "Note list \<Rightarrow> objectid \<Rightarrow> Note list" where
  "listArchived db uid = findDocs (\<lambda>n. userId n = uid \<and> isArchived n = Some True) db"

text \<open>
  \<^verbatim>\<open>GET /api/notes/tag/:tag\<close>. An equality filter on an array path selects the
  documents whose array has the value as an element.
\<close>

definition listByTag :: "Note list \<Rightarrow> objectid \<Rightarrow> string \<Rightarrow> Note list" where
  "listByTag db uid tag =
     findDocs (\<lambda>n. userId n = uid \<and>
                    (case tags n of None \<Rightarrow> False | Some ts \<Rightarrow> List.member ts tag) \<and>
                    isTrashed n = Some False) db"

text \<open>\<^verbatim>\<open>GET /api/notes/trashed\<close>\<close>

definition listTrashed :: "Note list \<Rightarrow> objectid \<Rightarrow> Note list" where
  "listTrashed db uid = findDocs (\<lambda>n. userId n = uid \<and> isTrashed n = Some True) db"

text \<open>
  \<^verbatim>\<open>PUT /api/notes/:id\<close>. The update document names seven paths, each with the value
  read from the body, and the call passes no option that says what to do with
  \<^verbatim>\<open>undefined\<close>. Paths the document does not name (\<^verbatim>\<open>_id\<close>, \<^verbatim>\<open>userId\<close>,
  \<^verbatim>\<open>deletedAt\<close>, \<^verbatim>\<open>createdAt\<close>) are not written.
\<close>

definition overwrite :: "bool \<Rightarrow> note_body \<Rightarrow> Note \<Rightarrow> Note" where
  "overwrite dropUndefined b n =
     n\<lparr>title := setPath dropUndefined (req_title b) (title n),
       content := setPath dropUndefined (req_content b) (content n),
       tags := setPath dropUndefined (req_tags b) (tags n),
       color := setPath dropUndefined (req_color b) (color n),
       reminder := setPath dropUndefined (req_reminder b) (reminder n),
       isArchived := setPath dropUndefined (req_isArchived b) (isArchived n),
       isTrashed := setPath dropUndefined (req_isTrashed b) (isTrashed n)\<rparr>"

definition update ::
  "bool \<Rightarrow> Note list \<Rightarrow> objectid \<Rightarrow> objectid \<Rightarrow> note_body \<Rightarrow> outcome \<times> Note list" where
  "update dropUndefined db uid i b =
     (case findOneAndUpdate (\<lambda>n. note_id n = i \<and> userId n = uid)
             (overwrite dropUndefined b) db of
        (None, db') \<Rightarrow> (Responded 404 (Text ''Note not found''), db')
      | (Some n, db') \<Rightarrow> (Responded 200 (Text ''Note Updated''), db'))"

text \<open>\<^verbatim>\<open>DELETE /api/notes/:id\<close>; \<open>now\<close> is the value of \<^verbatim>\<open>new Date()\<close>.\<close>

definition moveToTrash :: "date \<Rightarrow> Note \<Rightarrow> Note" where
  "moveToTrash now n = n\<lparr>isTrashed := Some True, deletedAt := Some now\<rparr>"

definition trash :: "Note list \<Rightarrow> objectid \<Rightarrow> objectid \<Rightarrow> date \<Rightarrow> outcome \<times> Note list" where
  "trash db uid i now =
     (case findOneAndUpdate (\<lambda>n. note_id n = i \<and> userId n = uid) (moveToTrash now) db of
        (None, db') \<Rightarrow> (Responded 404 (Text ''Note not found''), db')
      | (Some n, db') \<Rightarrow> (Responded 200 (Text ''Note Moved to Trash''), db'))"

text \<open>\<^verbatim>\<open>DELETE /api/notes/trashed/empty\<close>\<close>

definition emptyTrash :: "Note list \<Rightarrow> objectid \<Rightarrow> outcome \<times> Note list" where
  "emptyTrash db uid =
     (Responded 200 (Text ''Trash Emptied''),
      deleteMany (\<lambda>n. userId n = uid \<and> isTrashed n = Some True) db)"

text \<open>
  The daily job computes its threshold with the local-time methods of \<^verbatim>\<open>Date\<close>.
  Following the language specification: \<^verbatim>\<open>LocalTime(t)\<close> adds to a time value the
  offset of the server's time zone in effect at \<open>t\<close>, \<^verbatim>\<open>UTC(t)\<close> subtracts the offset
  in effect at the local time \<open>t\<close>; the offset is the implementation's
  \<^verbatim>\<open>LocalTZA(t, isUTC)\<close>, the parameter \<open>localTZA\<close>. \<^verbatim>\<open>Day\<close>, \<^verbatim>\<open>TimeWithinDay\<close>
  and \<^verbatim>\<open>MakeDate\<close> are the specification's.
\<close>

definition msPerDay :: int where
  "msPerDay = 86400000"

definition Day :: "date \<Rightarrow> int" where
  "Day t = t div msPerDay"

definition TimeWithinDay :: "date \<Rightarrow> int" where
  "TimeWithinDay t = t mod msPerDay"

definition MakeDate :: "int \<Rightarrow> int \<Rightarrow> date" where
  "MakeDate day time = day * msPerDay + time"

definition LocalTime :: "(date \<Rightarrow> bool \<Rightarrow> int) \<Rightarrow> date \<Rightarrow> date" where
  "LocalTime localTZA t = t + localTZA t True"

definition UTC :: "(date \<Rightarrow> bool \<Rightarrow> int) \<Rightarrow> date \<Rightarrow> date" where
  "UTC localTZA t = t - localTZA t False"

text \<open>
  \<^verbatim>\<open>thirtyDaysAgo.setDate(thirtyDaysAgo.getDate() - 30)\<close> on \<^verbatim>\<open>new Date()\<close>. With
  \<open>t\<close> the local time of \<open>now\<close>, \<^verbatim>\<open>setDate(dt)\<close> builds
  \<^verbatim>\<open>MakeDate(MakeDay(YearFromTime(t), MonthFromTime(t), dt), TimeWithinDay(t))\<close> and
  converts it back with \<^verbatim>\<open>UTC\<close>. \<^verbatim>\<open>MakeDay\<close> is the day number of the first of the
  month of \<open>t\<close> plus \<open>dt - 1\<close>; the first of the month is day
  \<open>Day t - (getDate() - 1)\<close>, so with \<open>dt = getDate() - 30\<close> the day number is
  \<open>Day t - 30\<close>: the same local time of day, 30 calendar days earlier.
  (\<^verbatim>\<open>TimeClip\<close> only refuses time values beyond the range of \<^verbatim>\<open>Date\<close>.)
\<close>

definition thirtyDaysAgo :: "(date \<Rightarrow> bool \<Rightarrow> int) \<Rightarrow> date \<Rightarrow> date" where
  "thirtyDaysAgo localTZA now =
     (let t = LocalTime localTZA now;
          newDate = MakeDate (Day t - 30) (TimeWithinDay t)
      in UTC localTZA newDate)"

text \<open>
  The job's \<^verbatim>\<open>deleteMany\<close>. A range filter with a date (\<^verbatim>\<open>$lte\<close>) selects only
  documents that hold a date at the path.
\<close>

definition purgeExpiredTrash :: "(date \<Rightarrow> bool \<Rightarrow> int) \<Rightarrow> date \<Rightarrow> Note list \<Rightarrow> Note list" where
  "purgeExpiredTrash localTZA now db =
     deleteMany (\<lambda>n. isTrashed n = Some True \<and>
                      (case deletedAt n of
                         None \<Rightarrow> False
                       | Some d \<Rightarrow> d \<le> thirtyDaysAgo localTZA now)) db"

text \<open>
  \<^verbatim>\<open>cron.schedule("0 0 * * *", ...)\<close> runs the job again and again; \<open>cronRuns\<close> is
  the store after the runs at the given instants, in order.
\<close>

fun cronRuns :: "(date \<Rightarrow> bool \<Rightarrow> int) \<Rightarrow> date list \<Rightarrow> Note list \<Rightarrow> Note list" where
  "cronRuns localTZA [] db = db"
| "cronRuns localTZA (t # ts) db = cronRuns localTZA ts (purgeExpiredTrash localTZA t db)"

section \<open>Stand-ins for the library parameters and sample data\<close>

text \<open>
  Concrete values on which the handlers are evaluated below: a reversible stand-in for
  the password hasher, an equality test for the pattern matcher, two time zones (UTC,
  and one that is an hour ahead of UTC until day 1000 and on UTC from then on, an
  ambiguous local hour counting as before the change), notes of two owners, request
  bodies, and a registered user.
\<close>

definition demoHash :: "nat \<Rightarrow> string \<Rightarrow> string" where
  "demoHash salt pw = rev pw"

definition demoCompare :: "string \<Rightarrow> string \<Rightarrow> bool" where
  "demoCompare pw h = (h = rev pw)"

definition demoRx :: "string \<Rightarrow> string \<Rightarrow> bool" where
  "demoRx query s = (query = s)"

definition utcZone :: "date \<Rightarrow> bool \<Rightarrow> int" where
  "utcZone t isUTC = 0"

definition dstZone :: "date \<Rightarrow> bool \<Rightarrow> int" where
  "dstZone t isUTC =
     (if t < (if isUTC then 1000 * msPerDay else 1000 * msPerDay + 3600000)
      then 3600000 else 0)"

definition noteA :: Note where
  "noteA = \<lparr>note_id = 1, userId = 10, title = Some ''A'', content = Some ''x'',
            tags = Some [''work''], color = None, isArchived = Some True,
            isTrashed = Some True, deletedAt = Some 0, createdAt = 0, reminder = None\<rparr>"

definition noteB :: Note where
  "noteB = \<lparr>note_id = 2, userId = 20, title = Some ''B'', content = None,
            tags = Some [], color = None, isArchived = Some False,
            isTrashed = Some False, deletedAt = None, createdAt = 5, reminder = None\<rparr>"

definition noteC :: Note where
  "noteC = \<lparr>note_id = 3, userId = 20, title = None, content = Some ''c'',
            tags = None, color = Some ''red'', isArchived = None,
            isTrashed = Some True, deletedAt = None, createdAt = 7, reminder = None\<rparr>"

definition noteD :: Note where
  "noteD = \<lparr>note_id = 4, userId = 10, title = Some ''D'', content = Some ''d'',
            tags = Some [''home'', ''work''], color = None, isArchived = Some False,
            isTrashed = Some False, deletedAt = Some 86400000, createdAt = 9,
            reminder = Some 100\<rparr>"

definition noteE :: Note where
  "noteE = \<lparr>note_id = 5, userId = 10, title = Some ''E'', content = None,
            tags = Some [], color = None, isArchived = Some False,
            isTrashed = Some True, deletedAt = Some (980 * msPerDay), createdAt = 9,
            reminder = None\<rparr>"

definition emptyBody :: note_body where
  "emptyBody = \<lparr>req_title = Missing, req_content = Missing, req_tags = Missing,
                req_color = Missing, req_reminder = Missing, req_isArchived = Missing,
                req_isTrashed = Missing\<rparr>"

definition demoStore :: "Note list" where
  "demoStore = [noteA, noteB, noteC, noteD]"

definition restoreBody :: note_body where
  "restoreBody = \<lparr>req_title = Given ''B2'', req_content = Null, req_tags = Null,
                  req_color = Null, req_reminder = Null, req_isArchived = Given False,
                  req_isTrashed = Given False\<rparr>"

definition trashBody :: note_body where
  "trashBody = \<lparr>req_title = Given ''B'', req_content = Null, req_tags = Given [],
                req_color = Null, req_reminder = Null, req_isArchived = Given False,
                req_isTrashed = Given True\<rparr>"

text \<open>
  A life of one note, from the empty store: created by user 20, moved to the trash at
  instant 1000, restored by an update with trashed false, and trashed again by an update
  with trashed true.
\<close>

definition retrashedStore :: "bool \<Rightarrow> Note list" where
  "retrashedStore dropUndefined =
     (let s1 = snd (create [] 20 trashBody 1 0);
          s2 = snd (trash s1 20 1 1000);
          s3 = snd (update dropUndefined s2 20 1 restoreBody)
      in snd (update dropUndefined s3 20 1 trashBody))"

definition alice :: User where
  "alice = \<lparr>user_id = 10, username = Some ''alice'', password = ''terces''\<rparr>"

definition demoUsers :: "User list" where
  "demoUsers = [alice]"

section \<open>Facts about the store operations\<close>

lemma findOneAndUpdate_none:
  "\<forall>d \<in> set db. \<not> p d \<Longrightarrow> findOneAndUpdate p f db = (None, db)"
  by (induction db) auto

lemma findOneAndUpdate_unique:
  assumes "distinct (map k db)" and "d \<in> set db" and "p d" and "\<forall>e. p e \<longrightarrow> k e = k d"
  shows "findOneAndUpdate p f db =
           (Some (f d), map (\<lambda>e. if k e = k d then f e else e) db)"
  using assms(1,2)
proof (induction db)
  case Nil
  then show ?case by simp
next
  case (Cons a db)
  show ?case
  proof (cases "p a")
    case True
    with assms(4) have ka: "k a = k d" by blast
    have "a = d"
    proof (rule ccontr)
      assume "a \<noteq> d"
      with Cons.prems(2) have "d \<in> set db" by simp
      then have "k d \<in> set (map k db)" by simp
      with Cons.prems(1) ka show False by simp
    qed
    moreover from Cons.prems(1) ka have "k d \<notin> k ` set db" by simp
    then have "\<forall>e \<in> set db. k e \<noteq> k d" by (metis imageI)
    then have "map (\<lambda>e. if k e = k d then f e else e) db = db"
      by (simp add: map_idI)
    ultimately show ?thesis using True by simp
  next
    case False
    with Cons.prems(2) assms(3) have din: "d \<in> set db" by auto
    moreover from Cons.prems(1) have "distinct (map k db)" by simp
    ultimately have "findOneAndUpdate p f db =
        (Some (f d), map (\<lambda>e. if k e = k d then f e else e) db)"
      using Cons.IH by blast
    moreover from Cons.prems(1) have "k a \<notin> k ` set db" by simp
    with din have "k a \<noteq> k d" by (metis imageI)
    ultimately show ?thesis using False by simp
  qed
qed

lemma findOneAndUpdate_map:
  "(\<And>d. g (f d) = g d) \<Longrightarrow> map g (snd (findOneAndUpdate p f db)) = map g db"
  by (induction db) (auto split: prod.splits)

lemma MakeDate_back:
  "MakeDate (Day t - 30) (TimeWithinDay t) = t - 30 * msPerDay"
proof -
  have "t div msPerDay * msPerDay + t mod msPerDay = t"
    by simp
  then show ?thesis
    by (simp add: MakeDate_def Day_def TimeWithinDay_def algebra_simps)
qed

lemma thirtyDaysAgo_eq:
  "thirtyDaysAgo tz now =
     now + tz now True - 30 * msPerDay - tz (now + tz now True - 30 * msPerDay) False"
  by (simp add: thirtyDaysAgo_def Let_def MakeDate_back UTC_def LocalTime_def)

lemma thirtyDaysAgo_fixed_offset:
  "tz now True = off \<Longrightarrow> tz (now + off - 30 * msPerDay) False = off \<Longrightarrow>
   thirtyDaysAgo tz now = now - 30 * msPerDay"
  by (simp add: thirtyDaysAgo_eq)

lemma purge_member:
  "n \<in> set (purgeExpiredTrash tz now db) \<longleftrightarrow>
   n \<in> set db \<and>
   \<not> (isTrashed n = Some True \<and> (\<exists>d. deletedAt n = Some d \<and> d \<le> thirtyDaysAgo tz now))"
  by (auto simp: purgeExpiredTrash_def deleteMany_def split: option.splits)

lemma purge_keeps_undated:
  "n \<in> set db \<Longrightarrow> deletedAt n = None \<Longrightarrow> n \<in> set (purgeExpiredTrash tz now db)"
  by (simp add: purge_member)

lemma cronRuns_keeps_undated:
  "n \<in> set db \<Longrightarrow> deletedAt n = None \<Longrightarrow> n \<in> set (cronRuns tz ts db)"
  by (induction ts arbitrary: db) (simp_all add: purge_keeps_undated)

lemma same_id_same_note:
  "distinct (map note_id db) \<Longrightarrow> n \<in> set db \<Longrightarrow> m \<in> set db \<Longrightarrow> note_id m = note_id n \<Longrightarrow> m = n"
  by (auto simp: distinct_map dest: inj_onD)

lemma overwrite_frame:
  "note_id (overwrite ou b n) = note_id n" "userId (overwrite ou b n) = userId n"
  "deletedAt (overwrite ou b n) = deletedAt n" "createdAt (overwrite ou b n) = createdAt n"
  by (simp_all add: overwrite_def)

lemma overwrite_nothing_supplied:
  "overwrite True emptyBody n = n"
  by (simp add: overwrite_def setPath_def emptyBody_def)

lemma update_hit:
  assumes "distinct (map note_id db)" and "n \<in> set db" and "userId n = uid"
  shows "update ou db uid (note_id n) b =
           (Responded 200 (Text ''Note Updated''),
            map (\<lambda>m. if note_id m = note_id n then overwrite ou b m else m) db)"
proof -
  have "findOneAndUpdate (\<lambda>m. note_id m = note_id n \<and> userId m = uid) (overwrite ou b) db =
          (Some (overwrite ou b n),
           map (\<lambda>m. if note_id m = note_id n then overwrite ou b m else m) db)"
    using assms by (intro findOneAndUpdate_unique) simp_all
  then show ?thesis by (simp add: update_def)
qed

lemma trash_hit:
  assumes "distinct (map note_id db)" and "n \<in> set db" and "userId n = uid"
  shows "trash db uid (note_id n) now =
           (Responded 200 (Text ''Note Moved to Trash''),
            map (\<lambda>m. if note_id m = note_id n then moveToTrash now m else m) db)"
proof -
  have "findOneAndUpdate (\<lambda>m. note_id m = note_id n \<and> userId m = uid) (moveToTrash now) db =
          (Some (moveToTrash now n),
           map (\<lambda>m. if note_id m = note_id n then moveToTrash now m else m) db)"
    using assms by (intro findOneAndUpdate_unique) simp_all
  then show ?thesis by (simp add: trash_def)
qed

lemma update_miss:
  "\<forall>m \<in> set db. \<not> (note_id m = i \<and> userId m = uid) \<Longrightarrow>
   update ou db uid i b = (Responded 404 (Text ''Note not found''), db)"
  by (simp add: update_def findOneAndUpdate_none)

lemma trash_miss:
  "\<forall>m \<in> set db. \<not> (note_id m = i \<and> userId m = uid) \<Longrightarrow>
   trash db uid i now = (Responded 404 (Text ''Note not found''), db)"
  by (simp add: trash_def findOneAndUpdate_none)

lemma update_keeps:
  "map note_id (snd (update ou db uid i b)) = map note_id db"
  "map userId (snd (update ou db uid i b)) = map userId db"
  "map deletedAt (snd (update ou db uid i b)) = map deletedAt db"
  "map createdAt (snd (update ou db uid i b)) = map createdAt db"
proof -
  have s: "snd (update ou db uid i b) =
      snd (findOneAndUpdate (\<lambda>n. note_id n = i \<and> userId n = uid) (overwrite ou b) db)"
    by (simp add: update_def split: prod.splits option.splits)
  show "map note_id (snd (update ou db uid i b)) = map note_id db"
    unfolding s by (rule findOneAndUpdate_map) (simp add: overwrite_frame)
  show "map userId (snd (update ou db uid i b)) = map userId db"
    unfolding s by (rule findOneAndUpdate_map) (simp add: overwrite_frame)
  show "map deletedAt (snd (update ou db uid i b)) = map deletedAt db"
    unfolding s by (rule findOneAndUpdate_map) (simp add: overwrite_frame)
  show "map createdAt (snd (update ou db uid i b)) = map createdAt db"
    unfolding s by (rule findOneAndUpdate_map) (simp add: overwrite_frame)
qed

lemma trash_keeps:
  "map note_id (snd (trash db uid i now)) = map note_id db"
  "map userId (snd (trash db uid i now)) = map userId db"
proof -
  have s: "snd (trash db uid i now) =
      snd (findOneAndUpdate (\<lambda>n. note_id n = i \<and> userId n = uid) (moveToTrash now) db)"
    by (simp add: trash_def split: prod.splits option.splits)
  show "map note_id (snd (trash db uid i now)) = map note_id db"
    unfolding s by (rule findOneAndUpdate_map) (simp add: moveToTrash_def)
  show "map userId (snd (trash db uid i now)) = map userId db"
    unfolding s by (rule findOneAndUpdate_map) (simp add: moveToTrash_def)
qed

lemma create_appends:
  "\<exists>x. create db uid b new_id now = (Responded 201 (Text ''Note Created''), db @ [x]) \<and>
       note_id x = new_id \<and> userId x = uid \<and> isArchived x = Some False \<and>
       isTrashed x = Some False \<and> deletedAt x = None \<and> createdAt x = now"
  by (simp add: create_def)

lemma create_distinct:
  "distinct (map note_id db) \<Longrightarrow> new_id \<notin> note_id ` set db \<Longrightarrow>
   distinct (map note_id (snd (create db uid b new_id now)))"
  by (simp add: create_def)

lemma deletes_distinct:
  "distinct (map note_id db) \<Longrightarrow> distinct (map note_id (snd (emptyTrash db uid)))"
  "distinct (map note_id db) \<Longrightarrow> distinct (map note_id (purgeExpiredTrash tz now db))"
  by (simp_all add: emptyTrash_def purgeExpiredTrash_def deleteMany_def distinct_map_filter)

lemma queries_scoped:
  "m \<in> set (listActive db uid) \<Longrightarrow> m \<in> set db \<and> userId m = uid"
  "m \<in> set (search rx db uid q) \<Longrightarrow> m \<in> set db \<and> userId m = uid"
  "m \<in> set (listArchived db uid) \<Longrightarrow> m \<in> set db \<and> userId m = uid"
  "m \<in> set (listByTag db uid t) \<Longrightarrow> m \<in> set db \<and> userId m = uid"
  "m \<in> set (listTrashed db uid) \<Longrightarrow> m \<in> set db \<and> userId m = uid"
  by (simp_all add: listActive_def search_def listArchived_def listByTag_def listTrashed_def
        findDocs_def)

lemma demoStore_facts:
  "distinct (map note_id demoStore)"
  "noteA \<in> set demoStore" "noteB \<in> set demoStore"
  "userId noteA = 10" "userId noteB = 20" "deletedAt noteB = None"
  by (simp_all add: demoStore_def noteA_def noteB_def noteC_def noteD_def)

lemma demoStore_ids:
  "note_id noteA = 1" "note_id noteB = 2" "note_id noteC = 3" "note_id noteD = 4"
  by (simp_all add: noteA_def noteB_def noteC_def noteD_def)

lemma findOne_unique:
  "distinct (map k db) \<Longrightarrow> d \<in> set db \<Longrightarrow> findOne (\<lambda>e. k e = k d) db = Some d"
proof (induction db)
  case Nil
  then show ?case by simp
next
  case (Cons a db)
  show ?case
  proof (cases "k a = k d")
    case True
    have "a = d"
    proof (rule ccontr)
      assume "a \<noteq> d"
      with Cons.prems(2) have "k d \<in> k ` set db" by simp
      with Cons.prems(1) True show False by simp
    qed
    then show ?thesis by (simp add: findOne_def)
  next
    case False
    with Cons show ?thesis by (auto simp: findOne_def)
  qed
qed

lemma findOne_absent:
  "\<forall>e \<in> set db. \<not> p e \<Longrightarrow> findOne p db = None"
  by (simp add: findOne_def find_None_iff)

lemma findOne_appended:
  "\<forall>e \<in> set db. \<not> p e \<Longrightarrow> p d \<Longrightarrow> findOne p (db @ [d]) = Some d"
  by (induction db) (simp_all add: findOne_def)

lemma saveUser_fresh:
  "\<forall>v \<in> set us. username v \<noteq> username u \<Longrightarrow> saveUser u us = Some (us @ [u])"
  by (simp add: saveUser_def list_ex_iff)

lemma saveUser_taken:
  "\<exists>v \<in> set us. username v = username u \<Longrightarrow> saveUser u us = None"
  by (simp add: saveUser_def list_ex_iff)

lemma register_keeps_unique:
  "distinct (map username us) \<Longrightarrow> distinct (map username (snd (register hash us b salt new_id)))"
  by (auto simp: register_def saveUser_def list_ex_iff Let_def split: option.splits)

lemma login_same_error_with_password:
  assumes "req_username b = Some name" and "req_password b = Some pw"
  shows "((\<forall>u \<in> set us. username u \<noteq> Some name) \<longrightarrow>
            login compare us b = Responded 400 (Text ''Invalid Username or Password'')) \<and>
         (distinct (map username us) \<and> u \<in> set us \<and> username u = Some name \<and>
          \<not> compare pw (password u) \<longrightarrow>
            login compare us b = Responded 400 (Text ''Invalid Username or Password''))"
proof (intro conjI impI)
  assume "\<forall>u \<in> set us. username u \<noteq> Some name"
  then have "findOne (\<lambda>u. username u = req_username b) us = None"
    using assms(1) by (simp add: findOne_absent)
  then show "login compare us b = Responded 400 (Text ''Invalid Username or Password'')"
    by (simp add: login_def)
next
  assume a: "distinct (map username us) \<and> u \<in> set us \<and> username u = Some name \<and>
          \<not> compare pw (password u)"
  then have "findOne (\<lambda>v. username v = username u) us = Some u"
    by (intro findOne_unique) simp_all
  with a assms show "login compare us b = Responded 400 (Text ''Invalid Username or Password'')"
    by (simp add: login_def)
qed

section \<open>Listing archived notes\<close>

text \<open>
  C6. \<open>listArchived\<close> returns exactly the caller's notes whose archived flag is true, in
  store order, and does not look at the trashed flag: a note of the caller that is both
  archived and trashed is in the result.
\<close>

theorem listArchived_ignores_trashed:
  "listArchived db uid = filter (\<lambda>n. userId n = uid \<and> isArchived n = Some True) db \<and>
   set (listArchived db uid) = {n \<in> set db. userId n = uid \<and> isArchived n = Some True} \<and>
   (n \<in> set db \<and> userId n = uid \<and> isArchived n = Some True \<and> isTrashed n = Some True
      \<longrightarrow> n \<in> set (listArchived db uid))"
  by (auto simp: listArchived_def findDocs_def)

theorem listArchived_ignores_trashed_witness:
  "noteA \<in> set [noteB, noteA] \<and> userId noteA = 10 \<and> isArchived noteA = Some True \<and>
   isTrashed noteA = Some True \<and> listArchived [noteB, noteA] 10 = [noteA]"
  using listArchived_ignores_trashed [of "[noteB, noteA]" 10 noteA]
  by (simp add: noteA_def noteB_def)

section \<open>Emptying the trash\<close>

text \<open>
  C5. \<open>emptyTrash\<close> always answers 200 and removes exactly the caller's notes whose
  trashed flag is true: every other note (not trashed, or of another owner) stays, in
  order and unchanged. Running it a second time changes nothing and answers the same.
\<close>

theorem emptyTrash_exact:
  "fst (emptyTrash db uid) = Responded 200 (Text ''Trash Emptied'') \<and>
   snd (emptyTrash db uid) = filter (\<lambda>n. \<not> (userId n = uid \<and> isTrashed n = Some True)) db \<and>
   set (snd (emptyTrash db uid)) = set db - {n. userId n = uid \<and> isTrashed n = Some True} \<and>
   emptyTrash (snd (emptyTrash db uid)) uid = emptyTrash db uid"
  by (auto simp: emptyTrash_def deleteMany_def)

theorem emptyTrash_exact_witness:
  "snd (emptyTrash [noteA, noteB, noteC, noteD] 10) = [noteB, noteC, noteD] \<and>
   emptyTrash [noteB, noteC, noteD] 10 =
     (Responded 200 (Text ''Trash Emptied''), [noteB, noteC, noteD])"
  using emptyTrash_exact [of "[noteA, noteB, noteC, noteD]" 10]
  by (simp add: noteA_def noteB_def noteC_def noteD_def emptyTrash_def deleteMany_def)

section \<open>The daily purge\<close>

text \<open>
  C2 as the specification states it: a note trashed exactly 30 days (30 times 24 hours)
  before \<open>now\<close> is deleted by the run at \<open>now\<close>. In a zone whose clocks went back an hour
  between the two instants, the run on day 1010 keeps a note trashed on day 980: the
  threshold is an hour earlier than 30 times 24 hours before \<open>now\<close>.
\<close>

theorem purge_across_clock_change_counterexample:
  "isTrashed noteE = Some True \<and>
   deletedAt noteE = Some (1010 * msPerDay - 30 * msPerDay) \<and>
   purgeExpiredTrash dstZone (1010 * msPerDay) [noteE] = [noteE]"
  by (simp add: purgeExpiredTrash_def deleteMany_def thirtyDaysAgo_eq dstZone_def noteE_def
        msPerDay_def)

text \<open>
  C2, amended. A run of the purge at instant \<open>now\<close> removes a stored note if and only if
  its trashed flag is true and its \<open>deletedAt\<close> is a date at most the threshold; the owner
  plays no part, and nothing is added to the store. The threshold is the instant that
  has, 30 calendar days before \<open>now\<close>, the local time of day of \<open>now\<close>. When the zone's
  offset at the threshold is its offset at \<open>now\<close>, the threshold is \<open>now\<close> minus 30 times 24
  hours: a note trashed 29 days before \<open>now\<close> stays, one trashed exactly 30 days before
  \<open>now\<close> is removed.
\<close>

theorem purgeExpiredTrash_iff:
  "(n \<in> set db \<longrightarrow>
      (n \<notin> set (purgeExpiredTrash tz now db) \<longleftrightarrow>
       isTrashed n = Some True \<and> (\<exists>d. deletedAt n = Some d \<and> d \<le> thirtyDaysAgo tz now))) \<and>
   set (purgeExpiredTrash tz now db) \<subseteq> set db \<and>
   thirtyDaysAgo tz now = UTC tz (LocalTime tz now - 30 * msPerDay) \<and>
   (tz now True = off \<and> tz (now + off - 30 * msPerDay) False = off \<longrightarrow>
      thirtyDaysAgo tz now = now - 30 * msPerDay \<and>
      (n \<in> set db \<and> isTrashed n = Some True \<and> deletedAt n = Some (now - 29 * msPerDay)
         \<longrightarrow> n \<in> set (purgeExpiredTrash tz now db)) \<and>
      (n \<in> set db \<and> isTrashed n = Some True \<and> deletedAt n = Some (now - 30 * msPerDay)
         \<longrightarrow> n \<notin> set (purgeExpiredTrash tz now db)))"
proof -
  have a: "set (purgeExpiredTrash tz now db) \<subseteq> set db"
    by (simp add: purgeExpiredTrash_def deleteMany_def)
  have b: "thirtyDaysAgo tz now = UTC tz (LocalTime tz now - 30 * msPerDay)"
    by (simp add: thirtyDaysAgo_def Let_def MakeDate_back)
  have c: "thirtyDaysAgo tz now = now - 30 * msPerDay"
    if "tz now True = off" and "tz (now + off - 30 * msPerDay) False = off"
    using that by (rule thirtyDaysAgo_fixed_offset)
  have d: "n \<in> set (purgeExpiredTrash tz now db)"
    if "thirtyDaysAgo tz now = now - 30 * msPerDay" and "n \<in> set db"
      and "deletedAt n = Some (now - 29 * msPerDay)"
    using that by (simp add: purge_member msPerDay_def)
  have e: "n \<notin> set (purgeExpiredTrash tz now db)"
    if "thirtyDaysAgo tz now = now - 30 * msPerDay" and "isTrashed n = Some True"
      and "deletedAt n = Some (now - 30 * msPerDay)"
    using that by (simp add: purge_member)
  from a b c d e show ?thesis
    by (simp add: purge_member)
qed

theorem purgeExpiredTrash_iff_witness:
  "noteA \<in> set demoStore \<and>
   utcZone (30 * msPerDay) True = 0 \<and> utcZone (30 * msPerDay + 0 - 30 * msPerDay) False = 0 \<and>
   isTrashed noteA = Some True \<and> deletedAt noteA = Some (30 * msPerDay - 30 * msPerDay) \<and>
   thirtyDaysAgo utcZone (30 * msPerDay) = 30 * msPerDay - 30 * msPerDay \<and>
   noteA \<notin> set (purgeExpiredTrash utcZone (30 * msPerDay) demoStore) \<and>
   utcZone (29 * msPerDay) True = 0 \<and> utcZone (29 * msPerDay + 0 - 30 * msPerDay) False = 0 \<and>
   deletedAt noteA = Some (29 * msPerDay - 29 * msPerDay) \<and>
   noteA \<in> set (purgeExpiredTrash utcZone (29 * msPerDay) demoStore)"
proof -
  have h: "utcZone (30 * msPerDay) True = 0" "utcZone (30 * msPerDay + 0 - 30 * msPerDay) False = 0"
    "utcZone (29 * msPerDay) True = 0" "utcZone (29 * msPerDay + 0 - 30 * msPerDay) False = 0"
    "isTrashed noteA = Some True" "deletedAt noteA = Some (30 * msPerDay - 30 * msPerDay)"
    "deletedAt noteA = Some (29 * msPerDay - 29 * msPerDay)"
    by (simp_all add: utcZone_def noteA_def)
  note w30 = purgeExpiredTrash_iff
    [where n = noteA and db = demoStore and tz = utcZone and now = "30 * msPerDay" and off = 0]
  note w29 = purgeExpiredTrash_iff
    [where n = noteA and db = demoStore and tz = utcZone and now = "29 * msPerDay" and off = 0]
  from w30 h(1,2) have t: "thirtyDaysAgo utcZone (30 * msPerDay) = 30 * msPerDay - 30 * msPerDay"
    by blast
  from w30 h(1,2,5,6) demoStore_facts(2)
  have gone: "noteA \<notin> set (purgeExpiredTrash utcZone (30 * msPerDay) demoStore)"
    by blast
  from w29 h(3,4,5,7) demoStore_facts(2)
  have kept: "noteA \<in> set (purgeExpiredTrash utcZone (29 * msPerDay) demoStore)"
    by blast
  from t gone kept h demoStore_facts(2) show ?thesis
    by blast
qed

section \<open>Owner scoping\<close>

text \<open>
  C1. In a store whose notes have distinct identifiers, let \<open>N\<close> be a note owned by
  \<open>A\<close> (\<open>create\<close> stores the caller as owner, and no handler changes the owner), and
  \<open>B\<close> another user. Then \<open>listActive\<close>, \<open>search\<close>, \<open>listByTag\<close> and \<open>listTrashed\<close>
  called by \<open>B\<close> return neither \<open>N\<close> nor any note with its identifier, and \<open>update\<close>
  and \<open>trash\<close> called by \<open>B\<close> on the identifier of \<open>N\<close> answer 404 \<^verbatim>\<open>Note not found\<close>
  and leave the store as it was.
\<close>

theorem owner_isolation:
  assumes "distinct (map note_id db)" and "N \<in> set db" and "userId N = A" and "B \<noteq> A"
  shows "note_id N \<notin> note_id ` set (listActive db B) \<and>
         note_id N \<notin> note_id ` set (search rx db B q) \<and>
         note_id N \<notin> note_id ` set (listByTag db B t) \<and>
         note_id N \<notin> note_id ` set (listTrashed db B) \<and>
         N \<notin> set (listActive db B) \<and> N \<notin> set (search rx db B q) \<and>
         N \<notin> set (listByTag db B t) \<and> N \<notin> set (listTrashed db B) \<and>
         update dropUndefined db B (note_id N) b = (Responded 404 (Text ''Note not found''), db) \<and>
         trash db B (note_id N) now = (Responded 404 (Text ''Note not found''), db)"
proof -
  have other: "\<And>m. m \<in> set db \<Longrightarrow> userId m = B \<Longrightarrow> note_id m \<noteq> note_id N"
    using assms same_id_same_note by blast
  have nomatch: "\<forall>m \<in> set db. \<not> (note_id m = note_id N \<and> userId m = B)"
    using other by blast
  have q: "note_id N \<notin> note_id ` set xs \<and> N \<notin> set xs"
    if "\<forall>m \<in> set xs. m \<in> set db \<and> userId m = B" for xs
  proof
    show "note_id N \<notin> note_id ` set xs"
    proof
      assume "note_id N \<in> note_id ` set xs"
      then obtain m where "m \<in> set xs" and "note_id m = note_id N" by force
      with that other show False by simp
    qed
    show "N \<notin> set xs"
    proof
      assume "N \<in> set xs"
      with that have "userId N = B" by simp
      with assms(3,4) show False by simp
    qed
  qed
  have a: "note_id N \<notin> note_id ` set (listActive db B) \<and> N \<notin> set (listActive db B)"
    by (rule q) (simp add: listActive_def search_def listByTag_def listTrashed_def findDocs_def)
  have s: "note_id N \<notin> note_id ` set (search rx db B q) \<and> N \<notin> set (search rx db B q)"
    by (rule q) (simp add: listActive_def search_def listByTag_def listTrashed_def findDocs_def)
  have g: "note_id N \<notin> note_id ` set (listByTag db B t) \<and> N \<notin> set (listByTag db B t)"
    by (rule q) (simp add: listActive_def search_def listByTag_def listTrashed_def findDocs_def)
  have r: "note_id N \<notin> note_id ` set (listTrashed db B) \<and> N \<notin> set (listTrashed db B)"
    by (rule q) (simp add: listActive_def search_def listByTag_def listTrashed_def findDocs_def)
  from a s g r update_miss [OF nomatch] trash_miss [OF nomatch] show ?thesis
    by blast
qed


theorem owner_isolation_witness:
  "distinct (map note_id demoStore) \<and> noteA \<in> set demoStore \<and> userId noteA = 10 \<and>
   (20::nat) \<noteq> 10 \<and>
   noteA \<notin> set (listActive demoStore 20) \<and> noteA \<notin> set (search demoRx demoStore 20 ''A'') \<and>
   noteA \<notin> set (listByTag demoStore 20 ''work'') \<and> noteA \<notin> set (listTrashed demoStore 20) \<and>
   update True demoStore 20 (note_id noteA) emptyBody =
     (Responded 404 (Text ''Note not found''), demoStore) \<and>
   trash demoStore 20 (note_id noteA) 99 = (Responded 404 (Text ''Note not found''), demoStore)"
proof -
  have ne: "(20::nat) \<noteq> 10" by simp
  show ?thesis
    using owner_isolation [OF demoStore_facts(1) demoStore_facts(2) demoStore_facts(4) ne,
        of demoRx "''A''" "''work''" True emptyBody 99]
      demoStore_facts
    by simp
qed

section \<open>The trash timestamp\<close>

text \<open>
  C3. \<open>trash\<close> on a note of the caller answers 200 and sets that note's trashed flag to
  true and its \<open>deletedAt\<close> to \<open>now\<close>, leaving every other note as it was. No other
  operation writes \<open>deletedAt\<close>: \<open>update\<close> keeps the \<open>deletedAt\<close> of every note of any
  store, \<open>create\<close> appends one note that has none, and \<open>emptyTrash\<close> and the purge only
  remove notes. An \<open>update\<close> after the \<open>trash\<close>, whatever its body (so also one with
  trashed false), writes the trashed flag as the body and the store say and leaves
  \<open>deletedAt\<close> at \<open>now\<close>.
\<close>

theorem trash_only_writer_of_deletedAt:
  assumes "distinct (map note_id db)" and "n \<in> set db" and "userId n = uid"
  shows "trash db uid (note_id n) now =
           (Responded 200 (Text ''Note Moved to Trash''),
            map (\<lambda>m. if note_id m = note_id n
                      then m\<lparr>isTrashed := Some True, deletedAt := Some now\<rparr> else m) db) \<and>
         map deletedAt (snd (update ou2 db2 uid2 i b2)) = map deletedAt db2 \<and>
         map note_id (snd (update ou2 db2 uid2 i b2)) = map note_id db2 \<and>
         (\<exists>x. snd (create db2 uid2 b2 new_id t) = db2 @ [x] \<and> deletedAt x = None) \<and>
         set (snd (emptyTrash db2 uid2)) \<subseteq> set db2 \<and>
         set (purgeExpiredTrash tz t db2) \<subseteq> set db2 \<and>
         update ou (snd (trash db uid (note_id n) now)) uid (note_id n) b =
           (Responded 200 (Text ''Note Updated''),
            map (\<lambda>m. if note_id m = note_id n
                      then overwrite ou b (m\<lparr>isTrashed := Some True, deletedAt := Some now\<rparr>)
                      else m) db) \<and>
         isTrashed (overwrite ou b (n\<lparr>isTrashed := Some True, deletedAt := Some now\<rparr>)) =
           setPath ou (req_isTrashed b) (Some True) \<and>
         setPath ou (Given False) (Some True) = Some False \<and>
         deletedAt (overwrite ou b (n\<lparr>isTrashed := Some True, deletedAt := Some now\<rparr>)) =
           Some now"
proof -
  let ?db1 = "map (\<lambda>m. if note_id m = note_id n then moveToTrash now m else m) db"
  have t: "trash db uid (note_id n) now = (Responded 200 (Text ''Note Moved to Trash''), ?db1)"
    using assms by (rule trash_hit)
  have ids: "map note_id ?db1 = map note_id db"
    by (simp add: moveToTrash_def)
  have d1: "distinct (map note_id ?db1)"
    using assms(1) unfolding ids .
  have n1: "moveToTrash now n \<in> set ?db1"
    using assms(2) by force
  have u: "update ou ?db1 uid (note_id (moveToTrash now n)) b =
      (Responded 200 (Text ''Note Updated''),
       map (\<lambda>m. if note_id m = note_id (moveToTrash now n) then overwrite ou b m else m) ?db1)"
    using d1 n1 by (rule update_hit) (simp add: moveToTrash_def assms(3))
  have u': "update ou (snd (trash db uid (note_id n) now)) uid (note_id n) b =
      (Responded 200 (Text ''Note Updated''),
       map (\<lambda>m. if note_id m = note_id n
                 then overwrite ou b (m\<lparr>isTrashed := Some True, deletedAt := Some now\<rparr>)
                 else m) db)"
    using u by (simp add: t moveToTrash_def o_def cong: if_cong)
  have c: "\<exists>x. snd (create db2 uid2 b2 new_id t) = db2 @ [x] \<and> deletedAt x = None"
    by (simp add: create_def)
  have e: "set (snd (emptyTrash db2 uid2)) \<subseteq> set db2"
    by (simp add: emptyTrash_def deleteMany_def)
  have p: "set (purgeExpiredTrash tz t db2) \<subseteq> set db2"
    by (simp add: purgeExpiredTrash_def deleteMany_def)
  have f: "isTrashed (overwrite ou b (n\<lparr>isTrashed := Some True, deletedAt := Some now\<rparr>)) =
           setPath ou (req_isTrashed b) (Some True)"
    "setPath ou (Given False) (Some True) = Some False"
    "deletedAt (overwrite ou b (n\<lparr>isTrashed := Some True, deletedAt := Some now\<rparr>)) = Some now"
    by (simp_all add: overwrite_def setPath_def)
  have t': "trash db uid (note_id n) now =
           (Responded 200 (Text ''Note Moved to Trash''),
            map (\<lambda>m. if note_id m = note_id n
                      then m\<lparr>isTrashed := Some True, deletedAt := Some now\<rparr> else m) db)"
    using t by (simp add: moveToTrash_def)
  from t' u' c e p f update_keeps(1,3) [of ou2 db2 uid2 i b2] show ?thesis
    by blast
qed

theorem trash_only_writer_of_deletedAt_witness:
  "distinct (map note_id demoStore) \<and> noteB \<in> set demoStore \<and> userId noteB = 20 \<and>
   trash demoStore 20 (note_id noteB) 77 =
     (Responded 200 (Text ''Note Moved to Trash''),
      [noteA, noteB\<lparr>isTrashed := Some True, deletedAt := Some 77\<rparr>, noteC, noteD]) \<and>
   update True (snd (trash demoStore 20 (note_id noteB) 77)) 20 (note_id noteB) restoreBody =
     (Responded 200 (Text ''Note Updated''),
      [noteA, overwrite True restoreBody (noteB\<lparr>isTrashed := Some True, deletedAt := Some 77\<rparr>),
       noteC, noteD]) \<and>
   isTrashed (overwrite True restoreBody (noteB\<lparr>isTrashed := Some True, deletedAt := Some 77\<rparr>)) =
     Some False \<and>
   deletedAt (overwrite True restoreBody (noteB\<lparr>isTrashed := Some True, deletedAt := Some 77\<rparr>)) =
     Some 77"
proof -
  have r: "req_isTrashed restoreBody = Given False"
    by (simp add: restoreBody_def)
  note w = trash_only_writer_of_deletedAt
    [where db = demoStore and n = noteB and uid = 20 and now = 77 and b = restoreBody
       and ou = True and ?ou2.0 = False and tz = utcZone
       and ?db2.0 = demoStore and ?uid2.0 = 10 and i = 1 and ?b2.0 = emptyBody
       and new_id = 5 and t = 0,
     OF demoStore_facts(1) demoStore_facts(3) demoStore_facts(5)]
  from w have t: "trash demoStore 20 (note_id noteB) 77 =
      (Responded 200 (Text ''Note Moved to Trash''),
       map (\<lambda>m. if note_id m = note_id noteB
                 then m\<lparr>isTrashed := Some True, deletedAt := Some 77\<rparr> else m) demoStore)"
    by (rule conjunct1)
  from w have u: "update True (snd (trash demoStore 20 (note_id noteB) 77)) 20 (note_id noteB) restoreBody =
      (Responded 200 (Text ''Note Updated''),
       map (\<lambda>m. if note_id m = note_id noteB
                 then overwrite True restoreBody (m\<lparr>isTrashed := Some True, deletedAt := Some 77\<rparr>)
                 else m) demoStore)"
    by blast
  from w have f: "isTrashed (overwrite True restoreBody (noteB\<lparr>isTrashed := Some True, deletedAt := Some 77\<rparr>)) =
      setPath True (req_isTrashed restoreBody) (Some True)"
    "setPath True (Given False) (Some True) = Some False"
    "deletedAt (overwrite True restoreBody (noteB\<lparr>isTrashed := Some True, deletedAt := Some 77\<rparr>)) = Some 77"
    by blast+
  have t': "trash demoStore 20 (note_id noteB) 77 =
     (Responded 200 (Text ''Note Moved to Trash''),
      [noteA, noteB\<lparr>isTrashed := Some True, deletedAt := Some 77\<rparr>, noteC, noteD])"
    unfolding t by (simp add: demoStore_def demoStore_ids)
  have u': "update True (snd (trash demoStore 20 (note_id noteB) 77)) 20 (note_id noteB) restoreBody =
     (Responded 200 (Text ''Note Updated''),
      [noteA, overwrite True restoreBody (noteB\<lparr>isTrashed := Some True, deletedAt := Some 77\<rparr>),
       noteC, noteD])"
    unfolding u by (simp add: demoStore_def demoStore_ids)
  from f(1,2) have f1: "isTrashed (overwrite True restoreBody
      (noteB\<lparr>isTrashed := Some True, deletedAt := Some 77\<rparr>)) = Some False"
    unfolding r by simp
  from t' u' f1 f(3) demoStore_facts(1,3,5) show ?thesis
    by blast
qed

section \<open>Update and the fields a request leaves out\<close>

text \<open>
  C4 as the specification states it: a field the request leaves out is written as null.
  On a store that drops \<^verbatim>\<open>undefined\<close> from an update, an \<open>update\<close> with an empty body
  answers 200 and leaves the note's title, and the whole store, as they were.
\<close>

theorem update_empty_body_counterexample:
  "noteA \<in> set demoStore \<and> userId noteA = 10 \<and> title noteA = Some ''A'' \<and>
   update True demoStore 10 (note_id noteA) emptyBody =
     (Responded 200 (Text ''Note Updated''), demoStore)"
  by (simp add: update_def demoStore_def demoStore_ids noteA_def noteB_def noteC_def noteD_def
        overwrite_nothing_supplied [unfolded noteA_def])

text \<open>
  C4, amended. \<open>update\<close> on a note of the caller answers 200 and writes each of title,
  content, tags, color, reminder, archived flag and trashed flag (seven fields) that the
  body supplies, a value as that value and \<^verbatim>\<open>null\<close> as null, over the stored one;
  identifier, owner, \<open>deletedAt\<close> and \<open>createdAt\<close> stay. A field the body leaves out is
  written as null where the store writes \<^verbatim>\<open>undefined\<close> as null, and then an empty body
  leaves all seven null (full overwrite); it keeps its stored value where the store
  drops \<^verbatim>\<open>undefined\<close>, and then an empty body changes nothing (partial merge). The
  source does not say which store it runs on.
\<close>

theorem update_writes_supplied_fields:
  assumes "distinct (map note_id db)" and "n \<in> set db" and "userId n = uid"
  shows "update ou db uid (note_id n) b =
           (Responded 200 (Text ''Note Updated''),
            map (\<lambda>m. if note_id m = note_id n
                      then \<lparr>note_id = note_id m, userId = userId m,
                            title = setPath ou (req_title b) (title m),
                            content = setPath ou (req_content b) (content m),
                            tags = setPath ou (req_tags b) (tags m),
                            color = setPath ou (req_color b) (color m),
                            isArchived = setPath ou (req_isArchived b) (isArchived m),
                            isTrashed = setPath ou (req_isTrashed b) (isTrashed m),
                            deletedAt = deletedAt m, createdAt = createdAt m,
                            reminder = setPath ou (req_reminder b) (reminder m)\<rparr>
                      else m) db) \<and>
         setPath ou (Given v) old = Some v \<and>
         setPath ou Null old = None \<and>
         setPath False Missing old = None \<and>
         setPath True Missing old = old \<and>
         update False db uid (note_id n) emptyBody =
           (Responded 200 (Text ''Note Updated''),
            map (\<lambda>m. if note_id m = note_id n
                      then \<lparr>note_id = note_id m, userId = userId m, title = None,
                            content = None, tags = None, color = None,
                            isArchived = None, isTrashed = None,
                            deletedAt = deletedAt m, createdAt = createdAt m,
                            reminder = None\<rparr>
                      else m) db) \<and>
         update True db uid (note_id n) emptyBody = (Responded 200 (Text ''Note Updated''), db)"
proof -
  have o: "overwrite c d m =
      \<lparr>note_id = note_id m, userId = userId m,
        title = setPath c (req_title d) (title m),
        content = setPath c (req_content d) (content m),
        tags = setPath c (req_tags d) (tags m),
        color = setPath c (req_color d) (color m),
        isArchived = setPath c (req_isArchived d) (isArchived m),
        isTrashed = setPath c (req_isTrashed d) (isTrashed m),
        deletedAt = deletedAt m, createdAt = createdAt m,
        reminder = setPath c (req_reminder d) (reminder m)\<rparr>" for c d m
    by (simp add: overwrite_def)
  have g: "update ou db uid (note_id n) b =
           (Responded 200 (Text ''Note Updated''),
            map (\<lambda>m. if note_id m = note_id n
                      then \<lparr>note_id = note_id m, userId = userId m,
                            title = setPath ou (req_title b) (title m),
                            content = setPath ou (req_content b) (content m),
                            tags = setPath ou (req_tags b) (tags m),
                            color = setPath ou (req_color b) (color m),
                            isArchived = setPath ou (req_isArchived b) (isArchived m),
                            isTrashed = setPath ou (req_isTrashed b) (isTrashed m),
                            deletedAt = deletedAt m, createdAt = createdAt m,
                            reminder = setPath ou (req_reminder b) (reminder m)\<rparr>
                      else m) db)"
    unfolding update_hit [OF assms, of ou b] o ..
  have p: "setPath ou (Given v) old = Some v" "setPath ou Null old = None"
    "setPath False Missing old = None" "setPath True Missing old = old"
    by (simp_all add: setPath_def)
  have of: "overwrite False emptyBody m =
      \<lparr>note_id = note_id m, userId = userId m, title = None, content = None, tags = None,
        color = None, isArchived = None, isTrashed = None, deletedAt = deletedAt m,
        createdAt = createdAt m, reminder = None\<rparr>" for m
    by (simp add: overwrite_def setPath_def emptyBody_def)
  have f: "update False db uid (note_id n) emptyBody =
           (Responded 200 (Text ''Note Updated''),
            map (\<lambda>m. if note_id m = note_id n
                      then \<lparr>note_id = note_id m, userId = userId m, title = None,
                            content = None, tags = None, color = None,
                            isArchived = None, isTrashed = None,
                            deletedAt = deletedAt m, createdAt = createdAt m,
                            reminder = None\<rparr>
                      else m) db)"
    unfolding update_hit [OF assms, of False emptyBody] of ..
  have "map (\<lambda>m. if note_id m = note_id n then overwrite True emptyBody m else m) db = db"
    by (simp add: overwrite_nothing_supplied cong: if_cong)
  then have k: "update True db uid (note_id n) emptyBody =
      (Responded 200 (Text ''Note Updated''), db)"
    unfolding update_hit [OF assms, of True emptyBody] by simp
  from g p f k show ?thesis
    by blast
qed

theorem update_writes_supplied_fields_witness:
  "distinct (map note_id demoStore) \<and> noteA \<in> set demoStore \<and> userId noteA = 10 \<and>
   update False demoStore 10 (note_id noteA) emptyBody =
     (Responded 200 (Text ''Note Updated''),
      [\<lparr>note_id = 1, userId = 10, title = None, content = None, tags = None, color = None,
        isArchived = None, isTrashed = None, deletedAt = Some 0, createdAt = 0,
        reminder = None\<rparr>, noteB, noteC, noteD]) \<and>
   update True demoStore 10 (note_id noteA) emptyBody =
     (Responded 200 (Text ''Note Updated''), demoStore) \<and>
   update True demoStore 10 (note_id noteA) restoreBody =
     (Responded 200 (Text ''Note Updated''),
      [\<lparr>note_id = 1, userId = 10, title = Some ''B2'', content = None, tags = None,
        color = None, isArchived = Some False, isTrashed = Some False, deletedAt = Some 0,
        createdAt = 0, reminder = None\<rparr>, noteB, noteC, noteD])"
proof -
  have ids: "userId noteA = 10" "deletedAt noteA = Some 0" "createdAt noteA = 0"
    by (simp_all add: noteA_def)
  note w = update_writes_supplied_fields
    [where db = demoStore and n = noteA and uid = 10 and b = restoreBody and ou = True
       and v = True and old = None,
     OF demoStore_facts(1) demoStore_facts(2) demoStore_facts(4)]
  from w have f: "update False demoStore 10 (note_id noteA) emptyBody =
      (Responded 200 (Text ''Note Updated''),
       map (\<lambda>m. if note_id m = note_id noteA
                 then \<lparr>note_id = note_id m, userId = userId m, title = None,
                       content = None, tags = None, color = None,
                       isArchived = None, isTrashed = None,
                       deletedAt = deletedAt m, createdAt = createdAt m,
                       reminder = None\<rparr>
                 else m) demoStore)"
    by blast
  from w have k: "update True demoStore 10 (note_id noteA) emptyBody =
      (Responded 200 (Text ''Note Updated''), demoStore)"
    by blast
  have f': "update False demoStore 10 (note_id noteA) emptyBody =
     (Responded 200 (Text ''Note Updated''),
      [\<lparr>note_id = 1, userId = 10, title = None, content = None, tags = None, color = None,
        isArchived = None, isTrashed = None, deletedAt = Some 0, createdAt = 0,
        reminder = None\<rparr>, noteB, noteC, noteD])"
    unfolding f by (simp add: demoStore_def demoStore_ids ids)
  have g': "update True demoStore 10 (note_id noteA) restoreBody =
     (Responded 200 (Text ''Note Updated''),
      [\<lparr>note_id = 1, userId = 10, title = Some ''B2'', content = None, tags = None,
        color = None, isArchived = Some False, isTrashed = Some False, deletedAt = Some 0,
        createdAt = 0, reminder = None\<rparr>, noteB, noteC, noteD])"
    unfolding conjunct1 [OF w]
    by (simp add: demoStore_def demoStore_ids ids restoreBody_def setPath_def)
  from f' k g' demoStore_facts(1,2,4) show ?thesis
    by blast
qed

section \<open>Trashed by update\<close>

text \<open>
  C10 as the specification states it: a note whose trashed flag was set to true by
  \<open>update\<close> has no \<open>deletedAt\<close> and is never deleted by the purge. The note of
  \<open>retrashedStore\<close> was trashed by \<open>trash\<close> at instant 1000, restored, and trashed again
  by \<open>update\<close>: it still carries \<open>deletedAt\<close> 1000, and the run thirty days later deletes
  it, on either kind of store.
\<close>

theorem retrashed_note_purged_counterexample:
  "retrashedStore True =
     [\<lparr>note_id = 1, userId = 20, title = Some ''B'', content = None, tags = Some [],
       color = None, isArchived = Some False, isTrashed = Some True,
       deletedAt = Some 1000, createdAt = 0, reminder = None\<rparr>] \<and>
   retrashedStore False = retrashedStore True \<and>
   purgeExpiredTrash utcZone (1000 + 30 * msPerDay) (retrashedStore True) = []"
proof -
  have s: "retrashedStore ou =
     [\<lparr>note_id = 1, userId = 20, title = Some ''B'', content = None, tags = Some [],
       color = None, isArchived = Some False, isTrashed = Some True,
       deletedAt = Some 1000, createdAt = 0, reminder = None\<rparr>]" for ou
    by (simp add: retrashedStore_def create_def trash_def update_def moveToTrash_def
        overwrite_def setPath_def toStored_def trashBody_def restoreBody_def)
  have "purgeExpiredTrash utcZone (1000 + 30 * msPerDay) (retrashedStore True) = []"
    unfolding s
    by (simp add: purgeExpiredTrash_def deleteMany_def thirtyDaysAgo_eq utcZone_def)
  with s [of True] s [of False] show ?thesis
    by simp
qed

text \<open>
  C10, amended. An \<open>update\<close> with trashed true on a note of the caller stores the note
  with trashed true and with the \<open>deletedAt\<close> it had. If it had none (as every note has
  until \<open>trash\<close> is called on it), no run of the purge removes it, at any instant, nor
  does any sequence of runs. If it had one (from an earlier \<open>trash\<close>), a run of the
  purge keeps it exactly while the run's threshold is before that date. \<open>emptyTrash\<close> by
  the owner removes it in both cases.
\<close>

theorem update_trashed_never_purged:
  assumes "distinct (map note_id db)" and "n \<in> set db" and "userId n = uid"
    and "req_isTrashed b = Given True"
  shows "update ou db uid (note_id n) b =
           (Responded 200 (Text ''Note Updated''),
            map (\<lambda>m. if note_id m = note_id n then overwrite ou b m else m) db) \<and>
         overwrite ou b n \<in> set (snd (update ou db uid (note_id n) b)) \<and>
         isTrashed (overwrite ou b n) = Some True \<and>
         deletedAt (overwrite ou b n) = deletedAt n \<and>
         (deletedAt n = None \<longrightarrow>
            (\<forall>now. overwrite ou b n \<in>
               set (purgeExpiredTrash tz now (snd (update ou db uid (note_id n) b)))) \<and>
            (\<forall>ts. overwrite ou b n \<in>
               set (cronRuns tz ts (snd (update ou db uid (note_id n) b))))) \<and>
         (\<forall>d now. deletedAt n = Some d \<longrightarrow>
            (overwrite ou b n \<in>
               set (purgeExpiredTrash tz now (snd (update ou db uid (note_id n) b))) \<longleftrightarrow>
             thirtyDaysAgo tz now < d)) \<and>
         overwrite ou b n \<notin> set (snd (emptyTrash (snd (update ou db uid (note_id n) b)) uid))"
proof -
  let ?db' = "snd (update ou db uid (note_id n) b)"
  have u: "update ou db uid (note_id n) b =
           (Responded 200 (Text ''Note Updated''),
            map (\<lambda>m. if note_id m = note_id n then overwrite ou b m else m) db)"
    using assms(1-3) by (rule update_hit)
  have i: "overwrite ou b n \<in> set ?db'"
    unfolding u using assms(2) by force
  have f: "isTrashed (overwrite ou b n) = Some True"
    "deletedAt (overwrite ou b n) = deletedAt n" "userId (overwrite ou b n) = uid"
    using assms(3,4) by (simp_all add: overwrite_def setPath_def)
  have e: "overwrite ou b n \<notin> set (snd (emptyTrash ?db' uid))"
    using f by (simp add: emptyTrash_def deleteMany_def)
  have k: "\<forall>now. overwrite ou b n \<in> set (purgeExpiredTrash tz now ?db')"
    "\<forall>ts. overwrite ou b n \<in> set (cronRuns tz ts ?db')"
    if "deletedAt n = None"
    using that i f(2) by (simp_all add: purge_keeps_undated cronRuns_keeps_undated)
  have s: "overwrite ou b n \<in> set (purgeExpiredTrash tz now ?db') \<longleftrightarrow> thirtyDaysAgo tz now < d"
    if "deletedAt n = Some d" for d now
    using that i f(1,2) by (auto simp: purge_member)
  from u i f(1,2) e k s show ?thesis
    by blast
qed

theorem update_trashed_never_purged_witness:
  "distinct (map note_id demoStore) \<and> noteB \<in> set demoStore \<and> userId noteB = 20 \<and>
   deletedAt noteB = None \<and> req_isTrashed trashBody = Given True \<and>
   snd (update True demoStore 20 (note_id noteB) trashBody) =
     [noteA, noteB\<lparr>isTrashed := Some True\<rparr>, noteC, noteD] \<and>
   noteB\<lparr>isTrashed := Some True\<rparr> \<in>
     set (cronRuns utcZone [30 * msPerDay, 60 * msPerDay, 4000 * msPerDay]
            (snd (update True demoStore 20 (note_id noteB) trashBody))) \<and>
   noteD \<in> set demoStore \<and> userId noteD = 10 \<and> deletedAt noteD = Some msPerDay \<and>
   thirtyDaysAgo utcZone (30 * msPerDay) < msPerDay \<and>
   overwrite True trashBody noteD \<in>
     set (purgeExpiredTrash utcZone (30 * msPerDay)
            (snd (update True demoStore 10 (note_id noteD) trashBody))) \<and>
   \<not> thirtyDaysAgo utcZone (31 * msPerDay) < msPerDay \<and>
   overwrite True trashBody noteD \<notin>
     set (purgeExpiredTrash utcZone (31 * msPerDay)
            (snd (update True demoStore 10 (note_id noteD) trashBody)))"
proof -
  have r: "req_isTrashed trashBody = Given True"
    by (simp add: trashBody_def)
  have o: "overwrite True trashBody noteB = noteB\<lparr>isTrashed := Some True\<rparr>"
    by (simp add: overwrite_def setPath_def trashBody_def noteB_def)
  have d: "noteD \<in> set demoStore" "userId noteD = 10" "deletedAt noteD = Some msPerDay"
    by (simp_all add: demoStore_def noteD_def msPerDay_def)
  have z: "thirtyDaysAgo utcZone (30 * msPerDay) < msPerDay"
    "\<not> thirtyDaysAgo utcZone (31 * msPerDay) < msPerDay"
    by (simp_all add: thirtyDaysAgo_eq utcZone_def msPerDay_def)
  note w = update_trashed_never_purged
    [where db = demoStore and n = noteB and uid = 20 and b = trashBody and ou = True
       and tz = utcZone,
     OF demoStore_facts(1) demoStore_facts(3) demoStore_facts(5) r]
  note v = update_trashed_never_purged
    [where db = demoStore and n = noteD and uid = 10 and b = trashBody and ou = True
       and tz = utcZone,
     OF demoStore_facts(1) d(1) d(2) r]
  have u: "snd (update True demoStore 20 (note_id noteB) trashBody) =
     [noteA, noteB\<lparr>isTrashed := Some True\<rparr>, noteC, noteD]"
    unfolding conjunct1 [OF w] by (simp add: demoStore_def demoStore_ids o)
  from w demoStore_facts(6) have "\<forall>ts. overwrite True trashBody noteB \<in>
      set (cronRuns utcZone ts (snd (update True demoStore 20 (note_id noteB) trashBody)))"
    by blast
  then have c: "noteB\<lparr>isTrashed := Some True\<rparr> \<in>
     set (cronRuns utcZone [30 * msPerDay, 60 * msPerDay, 4000 * msPerDay]
            (snd (update True demoStore 20 (note_id noteB) trashBody)))"
    unfolding o by (rule spec)
  from v d(3) have q: "overwrite True trashBody noteD \<in>
      set (purgeExpiredTrash utcZone now (snd (update True demoStore 10 (note_id noteD) trashBody)))
      \<longleftrightarrow> thirtyDaysAgo utcZone now < msPerDay" for now
    by blast
  from u c r demoStore_facts(1,3,5,6) d z q [of "30 * msPerDay"] q [of "31 * msPerDay"]
  show ?thesis
    by blast
qed

section \<open>Login failures\<close>

text \<open>
  C7. The login handler sends the same answer, 400 \<^verbatim>\<open>Invalid Username or Password\<close>,
  from both of its failing branches, but a request without a password does not reach
  the second one. For the registered username \<^verbatim>\<open>alice\<close> the comparison rejects and the
  handler ends without an answer; for the unknown username \<^verbatim>\<open>bob\<close> the answer is the
  400. The two cases can be told apart.
\<close>

theorem login_without_password_reveals_user:
  "username alice = Some ''alice'' \<and> alice \<in> set demoUsers \<and>
   Some ''bob'' \<notin> username ` set demoUsers \<and>
   login demoCompare demoUsers \<lparr>req_username = Some ''alice'', req_password = None\<rparr> =
     Unhandled \<and>
   login demoCompare demoUsers \<lparr>req_username = Some ''bob'', req_password = None\<rparr> =
     Responded 400 (Text ''Invalid Username or Password'')"
  by (simp add: login_def findOne_def demoUsers_def alice_def)

section \<open>Register, then log in\<close>

text \<open>
  C9. When no stored user has the username and the hasher's comparison accepts the
  password against the hash just made of it, \<open>register\<close> answers 201 and appends a user
  with the identifier drawn for it, and \<open>login\<close> with the same pair on the resulting
  store answers 200 with a token for exactly that identifier. The username and the
  password may be any strings.
\<close>

theorem register_then_login:
  assumes "\<forall>u \<in> set us. username u \<noteq> Some name" and "compare pw (hash salt pw)"
  shows "register hash us \<lparr>req_username = Some name, req_password = Some pw\<rparr> salt new_id =
           (Responded 201 (Text ''User Registered''),
            us @ [\<lparr>user_id = new_id, username = Some name, password = hash salt pw\<rparr>]) \<and>
         login compare
           (snd (register hash us \<lparr>req_username = Some name, req_password = Some pw\<rparr> salt new_id))
           \<lparr>req_username = Some name, req_password = Some pw\<rparr> =
           Responded 200 (Token new_id)"
proof -
  let ?u = "\<lparr>user_id = new_id, username = Some name, password = hash salt pw\<rparr>"
  have s: "saveUser ?u us = Some (us @ [?u])"
    using assms(1) by (simp add: saveUser_fresh)
  have r: "register hash us \<lparr>req_username = Some name, req_password = Some pw\<rparr> salt new_id =
           (Responded 201 (Text ''User Registered''), us @ [?u])"
    by (simp add: register_def s)
  have f: "findOne (\<lambda>u. username u = Some name) (us @ [?u]) = Some ?u"
    using assms(1) by (simp add: findOne_appended)
  have "login compare (us @ [?u]) \<lparr>req_username = Some name, req_password = Some pw\<rparr> =
           Responded 200 (Token new_id)"
    using assms(2) by (simp add: login_def f)
  with r show ?thesis by simp
qed

theorem register_then_login_witness:
  "Some ''bob'' \<notin> username ` set demoUsers \<and>
   demoCompare ''secret'' (demoHash 7 ''secret'') \<and>
   register demoHash demoUsers \<lparr>req_username = Some ''bob'', req_password = Some ''secret''\<rparr> 7 11 =
     (Responded 201 (Text ''User Registered''),
      [alice, \<lparr>user_id = 11, username = Some ''bob'', password = ''terces''\<rparr>]) \<and>
   login demoCompare
     (snd (register demoHash demoUsers
             \<lparr>req_username = Some ''bob'', req_password = Some ''secret''\<rparr> 7 11))
     \<lparr>req_username = Some ''bob'', req_password = Some ''secret''\<rparr> =
     Responded 200 (Token 11)"
proof -
  have h: "\<forall>u \<in> set demoUsers. username u \<noteq> Some ''bob''"
    "demoCompare ''secret'' (demoHash 7 ''secret'')"
    by (simp_all add: demoUsers_def alice_def demoCompare_def demoHash_def)
  note w = register_then_login [where us = demoUsers and name = "''bob''" and pw = "''secret''"
      and compare = demoCompare and hash = demoHash and salt = 7 and new_id = 11, OF h]
  have e: "demoUsers @ [\<lparr>user_id = 11, username = Some ''bob'', password = demoHash 7 ''secret''\<rparr>] =
      [alice, \<lparr>user_id = 11, username = Some ''bob'', password = ''terces''\<rparr>]"
    by (simp add: demoUsers_def demoHash_def)
  have n: "Some ''bob'' \<notin> username ` set demoUsers"
    by (simp add: demoUsers_def alice_def)
  from w n h(2) show ?thesis unfolding e by blast
qed

section \<open>Registration does not validate\<close>

text \<open>
  C8 as the specification states it: registration with an empty password fails with a
  validation error and creates no user. The handler has no validation step; on an empty
  store, username \<^verbatim>\<open>alice\<close> with the empty password is registered.
\<close>

theorem register_empty_password_counterexample:
  "register demoHash [] \<lparr>req_username = Some ''alice'', req_password = Some ''''\<rparr> 7 11 =
     (Responded 201 (Text ''User Registered''),
      [\<lparr>user_id = 11, username = Some ''alice'', password = ''''\<rparr>])"
  by (simp add: register_def saveUser_def demoHash_def)

text \<open>
  C8, amended. When the password is missing, no user record is created. When it is
  present, empty or not, and no stored user has the same username (empty and missing
  usernames are values like any other), the user is created with that username and the
  hash of the password, and the answer is 201 \<^verbatim>\<open>User Registered\<close>; when a stored user
  has the same username, the answer is 400 \<^verbatim>\<open>Username already exists\<close> and the store
  is unchanged.
\<close>

theorem register_no_validation:
  "(req_password b = None \<longrightarrow> snd (register hash us b salt new_id) = us) \<and>
   (req_password b = Some pw \<and> (\<forall>u \<in> set us. username u \<noteq> req_username b) \<longrightarrow>
      register hash us b salt new_id =
        (Responded 201 (Text ''User Registered''),
         us @ [\<lparr>user_id = new_id, username = req_username b, password = hash salt pw\<rparr>])) \<and>
   (req_password b = Some pw \<and> (\<exists>u \<in> set us. username u = req_username b) \<longrightarrow>
      register hash us b salt new_id =
        (Responded 400 (Text ''Username already exists''), us))"
  by (auto simp: register_def saveUser_def list_ex_iff Let_def split: option.splits)

theorem register_no_validation_witness:
  "snd (register demoHash demoUsers \<lparr>req_username = Some ''bob'', req_password = None\<rparr> 7 11) =
     demoUsers \<and>
   Some '''' \<notin> username ` set demoUsers \<and>
   register demoHash demoUsers \<lparr>req_username = Some '''', req_password = Some ''''\<rparr> 7 11 =
     (Responded 201 (Text ''User Registered''),
      demoUsers @ [\<lparr>user_id = 11, username = Some '''', password = demoHash 7 ''''\<rparr>]) \<and>
   None \<notin> username ` set demoUsers \<and>
   register demoHash demoUsers \<lparr>req_username = None, req_password = Some ''pw''\<rparr> 7 11 =
     (Responded 201 (Text ''User Registered''),
      demoUsers @ [\<lparr>user_id = 11, username = None, password = demoHash 7 ''pw''\<rparr>]) \<and>
   Some ''alice'' \<in> username ` set demoUsers \<and>
   register demoHash demoUsers \<lparr>req_username = Some ''alice'', req_password = Some ''pw''\<rparr> 7 11 =
     (Responded 400 (Text ''Username already exists''), demoUsers)"
proof -
  have h: "\<forall>u \<in> set demoUsers. username u \<noteq> Some ''''"
    "\<forall>u \<in> set demoUsers. username u \<noteq> None"
    "\<exists>u \<in> set demoUsers. username u = Some ''alice''"
    by (simp_all add: demoUsers_def alice_def)
  have 1: "snd (register demoHash demoUsers \<lparr>req_username = Some ''bob'', req_password = None\<rparr> 7 11) =
     demoUsers"
    using register_no_validation [where b = "\<lparr>req_username = Some ''bob'', req_password = None\<rparr>"
        and hash = demoHash and us = demoUsers and salt = 7 and new_id = 11 and pw = "''''"]
    by simp
  have 2: "register demoHash demoUsers \<lparr>req_username = Some '''', req_password = Some ''''\<rparr> 7 11 =
     (Responded 201 (Text ''User Registered''),
      demoUsers @ [\<lparr>user_id = 11, username = Some '''', password = demoHash 7 ''''\<rparr>])"
    using register_no_validation [where b = "\<lparr>req_username = Some '''', req_password = Some ''''\<rparr>"
        and hash = demoHash and us = demoUsers and salt = 7 and new_id = 11 and pw = "''''"] h(1)
    by simp
  have 3: "register demoHash demoUsers \<lparr>req_username = None, req_password = Some ''pw''\<rparr> 7 11 =
     (Responded 201 (Text ''User Registered''),
      demoUsers @ [\<lparr>user_id = 11, username = None, password = demoHash 7 ''pw''\<rparr>])"
    using register_no_validation [where b = "\<lparr>req_username = None, req_password = Some ''pw''\<rparr>"
        and hash = demoHash and us = demoUsers and salt = 7 and new_id = 11 and pw = "''pw''"] h(2)
    by simp
  have 4: "register demoHash demoUsers \<lparr>req_username = Some ''alice'', req_password = Some ''pw''\<rparr> 7 11 =
     (Responded 400 (Text ''Username already exists''), demoUsers)"
    using register_no_validation [where b = "\<lparr>req_username = Some ''alice'', req_password = Some ''pw''\<rparr>"
        and hash = demoHash and us = demoUsers and salt = 7 and new_id = 11 and pw = "''pw''"] h(3)
    by simp
  have n: "Some '''' \<notin> username ` set demoUsers" "None \<notin> username ` set demoUsers"
    "Some ''alice'' \<in> username ` set demoUsers"
    by (simp_all add: demoUsers_def alice_def)
  from 1 2 3 4 n show ?thesis by blast
qed

end
